theory Spec2Isabelle
  imports Main "HOL-Library.Multiset"
begin

section \<open>JavaScript values\<close>

text \<open>
  The values that reach the level functions of \<^verbatim>\<open>Logging.js\<close>. Numbers are modelled as
  integers (every level constant of the program is one); \<open>JBuiltin k\<close> is the built-in
  function or object that every object literal inherits from \<^verbatim>\<open>Object.prototype\<close> under
  the property name \<open>k\<close>.
\<close>

datatype jsval =
    JUndefined
  | JNull
  | JBool bool
  | JNumber int
  | JString string
  | JBuiltin string

text \<open>The \<^verbatim>\<open>typeof\<close> operator.\<close>

fun typeof :: "jsval \<Rightarrow> string" where
  "typeof JUndefined = ''undefined''"
| "typeof JNull = ''object''"
| "typeof (JBool b) = ''boolean''"
| "typeof (JNumber n) = ''number''"
| "typeof (JString s) = ''string''"
| "typeof (JBuiltin k) = (if k = ''__proto__'' then ''object'' else ''function'')"

text \<open>Truthiness (\<^verbatim>\<open>ToBoolean\<close>), the \<^verbatim>\<open>||\<close> operator and the \<^verbatim>\<open>Boolean\<close> function.\<close>

fun ToBoolean :: "jsval \<Rightarrow> bool" where
  "ToBoolean JUndefined = False"
| "ToBoolean JNull = False"
| "ToBoolean (JBool b) = b"
| "ToBoolean (JNumber n) = (n \<noteq> 0)"
| "ToBoolean (JString s) = (s \<noteq> [])"
| "ToBoolean (JBuiltin k) = True"

definition js_or :: "jsval \<Rightarrow> jsval \<Rightarrow> jsval" where
  "js_or a b = (if ToBoolean a then a else b)"

definition Boolean :: "jsval \<Rightarrow> bool" where
  "Boolean v = ToBoolean v"

section \<open>LogLevel\<close>

definition LogLevel_DEBUG :: int where "LogLevel_DEBUG = 10"
definition LogLevel_INFO :: int where "LogLevel_INFO = 20"
definition LogLevel_WARN :: int where "LogLevel_WARN = 30"
definition LogLevel_WARNING :: int where "LogLevel_WARNING = LogLevel_WARN"
definition LogLevel_ERROR :: int where "LogLevel_ERROR = 40"
definition LogLevel_ALL :: int where "LogLevel_ALL = 0"

text \<open>
  The errors the program throws. Each constructor stands for one \<^verbatim>\<open>throw\<close> of the
  source and carries the value that the source splices into the message:
  \<open>UnknownLevel v\<close> is \<^verbatim>\<open>Error("Unknown level: " + v)\<close>,
  \<open>LevelUnrecognized v\<close> is \<^verbatim>\<open>Error("Level " + v + " unrecognized.")\<close>,
  \<open>Thrown s\<close> is a thrown string or a rethrown I/O error with text \<open>s\<close>.
\<close>

datatype error =
    UnknownLevel jsval
  | LevelUnrecognized jsval
  | Thrown string

text \<open>\<^verbatim>\<open>_levelToName\<close>: a chain of strict equalities against the constants, then a throw.\<close>

definition levelToName :: "jsval \<Rightarrow> error + string" where
  "levelToName level =
     (if level = JNumber LogLevel_ALL then Inr ''ALL''
      else if level = JNumber LogLevel_DEBUG then Inr ''DEBUG''
      else if level = JNumber LogLevel_ERROR then Inr ''ERROR''
      else if level = JNumber LogLevel_INFO then Inr ''INFO''
      else if level = JNumber LogLevel_WARN then Inr ''WARN''
      else Inl (UnknownLevel level))"

text \<open>
  \<^verbatim>\<open>_nameToLevel\<close> builds an object literal and returns \<^verbatim>\<open>map[level]\<close>. A property read
  looks at the object's own properties first and then at its prototype, which for an
  object literal is \<^verbatim>\<open>Object.prototype\<close>; a name found in neither reads as
  \<^verbatim>\<open>undefined\<close>. Nothing is thrown.
\<close>

definition level_map :: "(string \<times> jsval) list" where
  "level_map =
     [(''ALL'', JNumber LogLevel_ALL),
      (''DEBUG'', JNumber LogLevel_DEBUG),
      (''ERROR'', JNumber LogLevel_ERROR),
      (''INFO'', JNumber LogLevel_INFO),
      (''WARN'', JNumber LogLevel_WARN),
      (''WARNING'', JNumber LogLevel_WARNING)]"

definition Object_prototype_names :: "string list" where
  "Object_prototype_names =
     [''constructor'', ''hasOwnProperty'', ''isPrototypeOf'', ''propertyIsEnumerable'',
      ''toLocaleString'', ''toString'', ''valueOf'', ''__proto__'',
      ''__defineGetter__'', ''__defineSetter__'', ''__lookupGetter__'', ''__lookupSetter__'']"

definition Object_prototype :: "string \<Rightarrow> jsval option" where
  "Object_prototype k = (if k \<in> set Object_prototype_names then Some (JBuiltin k) else None)"

definition nameToLevel :: "string \<Rightarrow> jsval" where
  "nameToLevel level =
     (case map_of level_map level of
        Some v \<Rightarrow> v
      | None \<Rightarrow> (case Object_prototype level of Some v \<Rightarrow> v | None \<Rightarrow> JUndefined))"

text \<open>\<^verbatim>\<open>_checkLevel\<close>: dispatch on \<^verbatim>\<open>typeof level\<close>.\<close>

definition checkLevel :: "jsval \<Rightarrow> error + jsval" where
  "checkLevel level =
     (if typeof level = ''number'' then Inr level
      else if typeof level = ''string'' then
        (case level of JString s \<Rightarrow> Inr (nameToLevel s) | _ \<Rightarrow> Inr JUndefined)
      else Inl (LevelUnrecognized level))"

definition recognized_ranks :: "int set" where
  "recognized_ranks = {0, 10, 20, 30, 40}"

definition recognized_names :: "string set" where
  "recognized_names = {''ALL'', ''DEBUG'', ''INFO'', ''WARN'', ''WARNING'', ''ERROR''}"

section \<open>Comparison of the threshold with a numeric level\<close>

text \<open>
  \<^verbatim>\<open>this.level <= level\<close> with a number on the right converts the left operand with
  \<^verbatim>\<open>ToNumber\<close>; \<open>None\<close> stands for \<^verbatim>\<open>NaN\<close>, against which every comparison is false.
  \<^verbatim>\<open>undefined\<close> converts to \<^verbatim>\<open>NaN\<close>, and so does a built-in of \<^verbatim>\<open>Object.prototype\<close>
  (its primitive value is its source text or \<^verbatim>\<open>"[object Object]"\<close>). For strings only
  signed decimal integer literals, with surrounding white space, are given a value: the
  integer model of numbers has no other; the level of a Logger is a string in no run
  that goes through \<^verbatim>\<open>initialize\<close> and \<^verbatim>\<open>setLevel\<close>.
\<close>

definition is_white_space :: "char \<Rightarrow> bool" where
  "is_white_space c =
     (c \<in> set [CHR 0x09, CHR 0x0A, CHR 0x0B, CHR 0x0C, CHR 0x0D, CHR '' ''])"

definition trim :: "string \<Rightarrow> string" where
  "trim s = rev (dropWhile is_white_space (rev (dropWhile is_white_space s)))"

definition digit_value :: "char \<Rightarrow> nat option" where
  "digit_value c =
     (let n = (of_char c :: nat) in if 48 \<le> n \<and> n \<le> 57 then Some (n - 48) else None)"

fun decimal_value :: "nat \<Rightarrow> string \<Rightarrow> nat option" where
  "decimal_value acc [] = Some acc"
| "decimal_value acc (c # cs) =
     (case digit_value c of None \<Rightarrow> None | Some d \<Rightarrow> decimal_value (10 * acc + d) cs)"

definition StringToNumber :: "string \<Rightarrow> int option" where
  "StringToNumber s =
     (case trim s of
        [] \<Rightarrow> Some 0
      | c # cs \<Rightarrow>
          if c = CHR ''+'' \<and> cs \<noteq> [] then map_option int (decimal_value 0 cs)
          else if c = CHR ''-'' \<and> cs \<noteq> [] then map_option (\<lambda>n. - int n) (decimal_value 0 cs)
          else map_option int (decimal_value 0 (c # cs)))"

fun ToNumber :: "jsval \<Rightarrow> int option" where
  "ToNumber JUndefined = None"
| "ToNumber JNull = Some 0"
| "ToNumber (JBool b) = Some (if b then 1 else 0)"
| "ToNumber (JNumber n) = Some n"
| "ToNumber (JString s) = StringToNumber s"
| "ToNumber (JBuiltin k) = None"

definition le_number :: "jsval \<Rightarrow> int \<Rightarrow> bool" where
  "le_number v n = (case ToNumber v of None \<Rightarrow> False | Some x \<Rightarrow> x \<le> n)"

section \<open>Formatting\<close>

text \<open>
  \<^verbatim>\<open>util.format\<close> of Node.js on string arguments: each \<^verbatim>\<open>%s\<close> of the format is replaced
  by the next argument, \<^verbatim>\<open>%%\<close> by a percent sign, a \<^verbatim>\<open>%s\<close> with no argument left
  stays, and arguments left over are appended after a space each. The directives
  \<^verbatim>\<open>%d\<close> and \<^verbatim>\<open>%j\<close>, which the program's format does not use, are not modelled.
\<close>

fun util_format :: "string \<Rightarrow> string list \<Rightarrow> string" where
  "util_format [] args = concat (map (\<lambda>a. CHR '' '' # a) args)"
| "util_format [c] args = c # concat (map (\<lambda>a. CHR '' '' # a) args)"
| "util_format (c # d # rest) args =
     (if c = CHR ''%'' \<and> d = CHR ''s'' then
        (case args of
           [] \<Rightarrow> c # d # util_format rest []
         | a # as \<Rightarrow> a @ util_format rest as)
      else if c = CHR ''%'' \<and> d = CHR ''%'' then CHR ''%'' # util_format rest args
      else c # util_format (d # rest) args)"

definition logging_log_format :: string where
  "logging_log_format = ''%s [%s] - %s''"

text \<open>\<^verbatim>\<open>Logging.Format\<close>, assigned once by \<^verbatim>\<open>initialize\<close>.\<close>

definition Logging_Format :: string where
  "Logging_Format = logging_log_format"

section \<open>Handlers and their effects\<close>

text \<open>
  The three handler classes. \<open>ConsoleHandler r\<close> has \<^verbatim>\<open>_ready\<close> equal to \<open>r\<close>;
  \<open>FileStreamHandler r f\<close> has \<^verbatim>\<open>_ready\<close> equal to \<open>r\<close> and \<^verbatim>\<open>_logfile\<close> equal to \<open>f\<close>.
\<close>

datatype handler =
    LogHandler
  | ConsoleHandler bool
  | FileStreamHandler bool string

datatype console_method = console_debug | console_info | console_warn | console_error | console_log

text \<open>
  What a run does to the outside: the calls made on \<^verbatim>\<open>console\<close>, the open-for-append
  checks and the appends requested from \<^verbatim>\<open>fs\<close> (path and buffer), each in the order of
  issue; and, as observations, the strings \<^verbatim>\<open>util.format\<close> produced and the calls of a
  handler's \<^verbatim>\<open>write\<close> with the arguments passed.
\<close>

record world =
  console_calls :: "(console_method \<times> string) list"
  fs_opens :: "string list"
  fs_appends :: "(string \<times> string) list"
  format_calls :: "string list"
  write_calls :: "(handler \<times> string \<times> jsval) list"

definition console_call :: "console_method \<Rightarrow> string \<Rightarrow> world \<Rightarrow> world" where
  "console_call m message w = w\<lparr>console_calls := console_calls w @ [(m, message)]\<rparr>"

definition LogHandler_write :: "string \<Rightarrow> world \<Rightarrow> world" where
  "LogHandler_write message w = w"

definition ConsoleHandler_initialize :: "bool \<Rightarrow> handler" where
  "ConsoleHandler_initialize console_present = ConsoleHandler (if console_present then True else False)"

definition ConsoleHandler_write :: "bool \<Rightarrow> string \<Rightarrow> jsval \<Rightarrow> world \<Rightarrow> world" where
  "ConsoleHandler_write ready message lvl w =
     (if ready then
        console_call console_log message
          (if lvl = JNumber LogLevel_DEBUG then console_call console_debug message w
           else if lvl = JNumber LogLevel_INFO then console_call console_info message w
           else if lvl = JNumber LogLevel_WARN then console_call console_warn message w
           else if lvl = JNumber LogLevel_ERROR then console_call console_error message w
           else w)
      else w)"

text \<open>
  \<^verbatim>\<open>FileStreamHandler.prototype.initialize\<close>: not ready, the log file resolved under the
  logs path, and an asynchronous open-for-append check requested. \<open>resolve\<close> is
  \<^verbatim>\<open>path.resolve\<close> of Node.js.
\<close>

definition FileStreamHandler_initialize ::
  "(string list \<Rightarrow> string) \<Rightarrow> string \<Rightarrow> string \<Rightarrow> world \<Rightarrow> handler \<times> world" where
  "FileStreamHandler_initialize resolve logs_path fileName w =
     (let logfile = resolve [logs_path, ''./'', fileName]
      in (FileStreamHandler False logfile, w\<lparr>fs_opens := fs_opens w @ [logfile]\<rparr>))"

text \<open>The callback of that check: rethrow the error, or set \<^verbatim>\<open>_ready\<close>.\<close>

fun FileStreamHandler_opened :: "string option \<Rightarrow> handler \<Rightarrow> error + handler" where
  "FileStreamHandler_opened (Some err) h = Inl (Thrown err)"
| "FileStreamHandler_opened None (FileStreamHandler r f) = Inr (FileStreamHandler True f)"
| "FileStreamHandler_opened None h = Inr h"

definition FileStreamHandler_write :: "bool \<Rightarrow> string \<Rightarrow> string \<Rightarrow> jsval \<Rightarrow> world \<Rightarrow> world" where
  "FileStreamHandler_write ready logfile message lvl w =
     (if ready then w\<lparr>fs_appends := fs_appends w @ [(logfile, message @ [CHR 0x0A])]\<rparr>
      else w)"

text \<open>
  Completion of one requested append, with the outcomes of \<^verbatim>\<open>fs.open\<close> and \<^verbatim>\<open>fs.write\<close>
  given by the environment (\<open>None\<close> is success). Opening with flag \<^verbatim>\<open>a+\<close> creates a
  missing file; writing at position \<^verbatim>\<open>null\<close> puts the buffer at the end. The result is
  what the callback throws, if anything, and the files afterwards.
\<close>

type_synonym files = "string \<Rightarrow> string option"

definition file_contents :: "files \<Rightarrow> string \<Rightarrow> string" where
  "file_contents fs p = (case fs p of None \<Rightarrow> [] | Some c \<Rightarrow> c)"

definition append_completes ::
  "string option \<Rightarrow> string option \<Rightarrow> string \<times> string \<Rightarrow> files \<Rightarrow> error option \<times> files" where
  "append_completes open_err write_err req fs =
     (case open_err of
        Some e \<Rightarrow>
          (Some (Thrown (''An error was encountered when attemping to open the log file: '' @ e)),
           fs)
      | None \<Rightarrow>
          (let opened = fs(fst req \<mapsto> file_contents fs (fst req)) in
           case write_err of
             Some e \<Rightarrow> (Some (Thrown (''Error writing file: '' @ e)), opened)
           | None \<Rightarrow> (None, opened(fst req \<mapsto> file_contents opened (fst req) @ snd req))))"

text \<open>
  The requested appends are not serialised: each opens its own descriptor, and the
  callbacks run in whatever order the file system finishes, each with its own outcome.
  A completion is one such callback: the outcomes of \<^verbatim>\<open>fs.open\<close> and \<^verbatim>\<open>fs.write\<close> and the
  request it belongs to. \<open>completions evs fs\<close> are the files after the callbacks
  \<open>evs\<close> have run, in that order; \<open>appended f evs\<close> are the buffers of those among them
  that were for the file \<open>f\<close> and met no error.
\<close>

record completion =
  open_error :: "string option"
  write_error :: "string option"
  request :: "string \<times> string"

definition succeeded :: "completion \<Rightarrow> bool" where
  "succeeded e = (open_error e = None \<and> write_error e = None)"

definition completions :: "completion list \<Rightarrow> files \<Rightarrow> files" where
  "completions evs fs =
     foldl (\<lambda>fs' e. snd (append_completes (open_error e) (write_error e) (request e) fs')) fs evs"

definition appended :: "string \<Rightarrow> completion list \<Rightarrow> string list" where
  "appended f evs =
     map (\<lambda>e. snd (request e)) (filter (\<lambda>e. succeeded e \<and> fst (request e) = f) evs)"

text \<open>The number of lines of a text: of its line feeds.\<close>

definition line_count :: "string \<Rightarrow> nat" where
  "line_count s = length (filter (\<lambda>c. c = CHR 0x0A) s)"

text \<open>
  A call \<^verbatim>\<open>handler.write(message, level)\<close>: the call is observed, then the method of the
  handler's class runs.
\<close>

definition handler_write :: "handler \<Rightarrow> string \<Rightarrow> jsval \<Rightarrow> world \<Rightarrow> world" where
  "handler_write h message lvl w =
     (let w' = w\<lparr>write_calls := write_calls w @ [(h, message, lvl)]\<rparr> in
      case h of
        LogHandler \<Rightarrow> LogHandler_write message w'
      | ConsoleHandler ready \<Rightarrow> ConsoleHandler_write ready message lvl w'
      | FileStreamHandler ready logfile \<Rightarrow> FileStreamHandler_write ready logfile message lvl w')"

section \<open>Logger\<close>

record logger =
  handlers :: "handler list"
  format :: string
  level :: jsval

definition Logger_initialize :: logger where
  "Logger_initialize = \<lparr>handlers = [], format = [], level = JNumber LogLevel_INFO\<rparr>"

definition Logger_addHandler :: "logger \<Rightarrow> handler \<Rightarrow> logger" where
  "Logger_addHandler lg h = lg\<lparr>handlers := handlers lg @ [h]\<rparr>"

definition Logger_setLevel :: "logger \<Rightarrow> jsval \<Rightarrow> error + logger" where
  "Logger_setLevel lg v =
     (case checkLevel v of Inl e \<Rightarrow> Inl e | Inr r \<Rightarrow> Inr (lg\<lparr>level := r\<rparr>))"

text \<open>
  \<^verbatim>\<open>Logger.prototype.log\<close> for a numeric level \<open>l\<close>; \<open>now\<close> is \<^verbatim>\<open>date.toISOString()\<close> of
  the clock. \<^verbatim>\<open>_levelToName\<close> may throw, before anything is formatted. Each handler is
  called as \<^verbatim>\<open>handler.write(formatted)\<close>, with one argument: its \<^verbatim>\<open>level\<close> parameter is
  \<^verbatim>\<open>undefined\<close>.
\<close>

definition Logger_log :: "logger \<Rightarrow> int \<Rightarrow> string \<Rightarrow> string \<Rightarrow> world \<Rightarrow> error + world" where
  "Logger_log lg l message now w =
     (if le_number (level lg) l then
        (case levelToName (JNumber l) of
           Inl e \<Rightarrow> Inl e
         | Inr name \<Rightarrow>
             (let s = util_format Logging_Format [now, name, message];
                  w1 = w\<lparr>format_calls := format_calls w @ [s]\<rparr>
              in Inr (foldl (\<lambda>w' h. handler_write h s JUndefined w') w1 (handlers lg))))
      else Inr w)"

definition Logger_error :: "logger \<Rightarrow> string \<Rightarrow> string \<Rightarrow> world \<Rightarrow> error + world" where
  "Logger_error lg message now w = Logger_log lg LogLevel_ERROR message now w"

definition Logger_debug :: "logger \<Rightarrow> string \<Rightarrow> string \<Rightarrow> world \<Rightarrow> error + world" where
  "Logger_debug lg message now w = Logger_log lg LogLevel_DEBUG message now w"

definition Logger_info :: "logger \<Rightarrow> string \<Rightarrow> string \<Rightarrow> world \<Rightarrow> error + world" where
  "Logger_info lg message now w = Logger_log lg LogLevel_INFO message now w"

definition Logger_warn :: "logger \<Rightarrow> string \<Rightarrow> string \<Rightarrow> world \<Rightarrow> error + world" where
  "Logger_warn lg message now w = Logger_log lg LogLevel_WARN message now w"

section \<open>Plugin parameters and createLogger\<close>

text \<open>
  \<^verbatim>\<open>PluginManager.parameters("Logging")\<close> is an object whose properties are strings; a
  parameter that is not configured reads as \<^verbatim>\<open>undefined\<close>.
\<close>

type_synonym parameters = "string \<Rightarrow> string option"

definition parameter :: "parameters \<Rightarrow> string \<Rightarrow> jsval" where
  "parameter p k = (case p k of None \<Rightarrow> JUndefined | Some s \<Rightarrow> JString s)"

definition logging_enable_console_logger :: "parameters \<Rightarrow> bool" where
  "logging_enable_console_logger p =
     Boolean (js_or (parameter p ''Enable Console Logger'') (JString ''true''))"

definition logging_enable_file_logger :: "parameters \<Rightarrow> bool" where
  "logging_enable_file_logger p =
     Boolean (js_or (parameter p ''Enable File Logger'') (JString ''true''))"

text \<open>\<^verbatim>\<open>String(v)\<close> leaves a string as it is; the operand here is always one.\<close>

definition logging_filename :: "parameters \<Rightarrow> string" where
  "logging_filename p =
     (case js_or (parameter p ''Log Filename'') (JString ''game.log'') of
        JString s \<Rightarrow> s
      | _ \<Rightarrow> [])"

text \<open>
  What \<^verbatim>\<open>createLogger\<close> reads from its surroundings: whether the global \<^verbatim>\<open>console\<close> is
  truthy, \<^verbatim>\<open>path.basename\<close> and \<^verbatim>\<open>path.resolve\<close> of Node.js, and \<^verbatim>\<open>Logging.Paths.logs_path\<close>.
\<close>

record environment =
  console_present :: bool
  path_basename :: "string \<Rightarrow> string"
  path_resolve :: "string list \<Rightarrow> string"
  logs_path :: string

definition createLogger ::
  "parameters \<Rightarrow> environment \<Rightarrow> string \<Rightarrow> jsval \<Rightarrow> world \<Rightarrow> error + logger \<times> world" where
  "createLogger p env name lvl w =
     (case Logger_setLevel Logger_initialize lvl of
        Inl e \<Rightarrow> Inl e
      | Inr lg0 \<Rightarrow>
          (let lg1 =
                 (if logging_enable_console_logger p
                  then Logger_addHandler lg0 (ConsoleHandler_initialize (console_present env))
                  else lg0)
           in if logging_enable_file_logger p then
                (let hw = FileStreamHandler_initialize (path_resolve env) (logs_path env)
                            (path_basename env (logging_filename p)) w
                 in Inr (Logger_addHandler lg1 (fst hw), snd hw))
              else Inr (lg1, w)))"

section \<open>resolveToLocalPath\<close>

text \<open>
  The regular expressions that the pattern of \<^verbatim>\<open>resolveToLocalPath\<close> is built from: a
  character class, concatenation, the greedy \<^verbatim>\<open>?\<close>, the greedy \<^verbatim>\<open>+\<close> and the lazy \<^verbatim>\<open>+?\<close> of
  a class, and a capturing group (the pattern has one).
\<close>

datatype regex =
    Class "char \<Rightarrow> bool"
  | Cat regex regex
  | Opt regex
  | PlusGreedy "char \<Rightarrow> bool"
  | PlusLazy "char \<Rightarrow> bool"
  | Capture regex

text \<open>
  Backtracking as a list of successes: a state is the input still to read and the value
  of the capture; \<open>matches r st\<close> lists the states in which a match of \<open>r\<close> from \<open>st\<close>
  can end, in the order in which a backtracking matcher tries them. A greedy \<^verbatim>\<open>?\<close>
  tries its operand before skipping it (an empty iteration is rejected), a greedy
  \<^verbatim>\<open>+\<close> tries the longest run first, a lazy one the shortest.
\<close>

type_synonym mstate = "string \<times> string option"

fun matches :: "regex \<Rightarrow> mstate \<Rightarrow> mstate list" where
  "matches (Class P) (s, cap) =
     (case s of [] \<Rightarrow> [] | c # cs \<Rightarrow> if P c then [(cs, cap)] else [])"
| "matches (Cat a b) st = concat (map (matches b) (matches a st))"
| "matches (Opt a) st = filter (\<lambda>y. fst y \<noteq> fst st) (matches a st) @ [st]"
| "matches (PlusGreedy P) (s, cap) =
     map (\<lambda>k. (drop k s, cap)) (rev [1 ..< Suc (length (takeWhile P s))])"
| "matches (PlusLazy P) (s, cap) =
     map (\<lambda>k. (drop k s, cap)) [1 ..< Suc (length (takeWhile P s))]"
| "matches (Capture a) (s, cap) =
     map (\<lambda>y. (fst y, Some (take (length s - length (fst y)) s))) (matches a (s, cap))"

text \<open>
  The class \<^verbatim>\<open>[\/\\]\<close> and the dot, which matches all but line terminators (of the
  characters of a \<open>string\<close>: line feed and carriage return).
\<close>

definition is_separator :: "char \<Rightarrow> bool" where
  "is_separator c = (c = CHR ''/'' \<or> c = CHR 0x5C)"

definition is_dot :: "char \<Rightarrow> bool" where
  "is_dot c = (c \<noteq> CHR 0x0A \<and> c \<noteq> CHR 0x0D)"

text \<open>\<^verbatim>\<open>/[\/\\]?(?:.+[\/\\]+?)?(.+?)[\/\\]?/g\<close>\<close>

definition pattern :: regex where
  "pattern =
     Cat (Opt (Class is_separator))
       (Cat (Opt (Cat (PlusGreedy is_dot) (PlusLazy is_separator)))
         (Cat (Capture (PlusLazy is_dot)) (Opt (Class is_separator))))"

text \<open>The replacement \<^verbatim>\<open>"$1"\<close>: the capture, or nothing when the group took no part.\<close>

definition replacement :: "string option \<Rightarrow> string" where
  "replacement cap = (case cap of None \<Rightarrow> [] | Some c \<Rightarrow> c)"

text \<open>
  \<^verbatim>\<open>String.prototype.replace\<close> with a global pattern: at each position the first match
  is replaced and the search goes on behind it; where nothing matches the character is
  kept; after an empty match the search moves on by one character.
\<close>

function replace_global :: "regex \<Rightarrow> string \<Rightarrow> string" where
  "replace_global r [] =
     (case matches r ([], None) of [] \<Rightarrow> [] | y # _ \<Rightarrow> replacement (snd y))"
| "replace_global r (c # cs) =
     (case matches r (c # cs, None) of
        [] \<Rightarrow> c # replace_global r cs
      | y # _ \<Rightarrow>
          if length (fst y) < length (c # cs)
          then replacement (snd y) @ replace_global r (fst y)
          else replacement (snd y) @ c # replace_global r cs)"
  by pat_completeness auto
termination
  by (relation "measure (\<lambda>(r, s). length s)") auto

definition resolveToLocalPath :: "string \<Rightarrow> string" where
  "resolveToLocalPath filePath = replace_global pattern filePath"

section \<open>Sample inputs\<close>

definition world0 :: world where
  "world0 =
     \<lparr>console_calls = [], fs_opens = [], fs_appends = [], format_calls = [], write_calls = []\<rparr>"

definition spy_logger :: "int \<Rightarrow> logger" where
  "spy_logger t =
     \<lparr>handlers = [ConsoleHandler True, FileStreamHandler True ''/game/logs/game.log''],
      format = [], level = JNumber t\<rparr>"

definition log_path :: string where
  "log_path = ''/game/logs/game.log''"

definition completed :: "string \<Rightarrow> completion" where
  "completed m = \<lparr>open_error = None, write_error = None, request = (log_path, m @ [CHR 0x0A])\<rparr>"

definition open_failed :: "string \<Rightarrow> completion" where
  "open_failed m =
     \<lparr>open_error = Some ''EACCES'', write_error = None, request = (log_path, m @ [CHR 0x0A])\<rparr>"

definition console_logger :: logger where
  "console_logger =
     \<lparr>handlers = [ConsoleHandler True], format = [], level = JNumber LogLevel_INFO\<rparr>"

section \<open>The level registry\<close>

lemmas LogLevel_defs =
  LogLevel_DEBUG_def LogLevel_INFO_def LogLevel_WARN_def LogLevel_WARNING_def
  LogLevel_ERROR_def LogLevel_ALL_def

lemma levelToName_recognized:
  "levelToName (JNumber 0) = Inr ''ALL''"
  "levelToName (JNumber 10) = Inr ''DEBUG''"
  "levelToName (JNumber 20) = Inr ''INFO''"
  "levelToName (JNumber 30) = Inr ''WARN''"
  "levelToName (JNumber 40) = Inr ''ERROR''"
  by (simp_all add: levelToName_def LogLevel_defs)

lemma levelToName_unknown:
  "v \<notin> JNumber ` recognized_ranks \<Longrightarrow> levelToName v = Inl (UnknownLevel v)"
  by (auto simp: levelToName_def LogLevel_defs recognized_ranks_def)

lemma nameToLevel_recognized:
  "nameToLevel ''ALL'' = JNumber 0"
  "nameToLevel ''DEBUG'' = JNumber 10"
  "nameToLevel ''INFO'' = JNumber 20"
  "nameToLevel ''WARN'' = JNumber 30"
  "nameToLevel ''WARNING'' = JNumber 30"
  "nameToLevel ''ERROR'' = JNumber 40"
  by (simp_all add: nameToLevel_def level_map_def LogLevel_defs)

lemma map_of_level_map_None:
  "s \<notin> recognized_names \<Longrightarrow> map_of level_map s = None"
  by (simp add: level_map_def recognized_names_def)

lemma nameToLevel_unrecognized:
  "s \<notin> recognized_names \<Longrightarrow>
   nameToLevel s = (if s \<in> set Object_prototype_names then JBuiltin s else JUndefined)"
  by (simp add: nameToLevel_def map_of_level_map_None Object_prototype_def)

lemma nameToLevel_unrecognized_not_number:
  "s \<notin> recognized_names \<Longrightarrow> nameToLevel s \<noteq> JNumber n"
  by (simp add: nameToLevel_unrecognized)

text \<open>
  C4. The name/rank mapping is a bijection up to the WARN/WARNING alias: for each of the
  ranks 0, 10, 20, 30, 40 \<open>levelToName\<close> returns a name that \<open>nameToLevel\<close> maps back
  to the rank; \<open>levelToName\<close> throws for every other number; \<open>WARN\<close> and \<open>WARNING\<close>
  both map to 30; and the name of rank 30 is \<open>WARN\<close>.
\<close>

theorem C4_name_rank_bijection:
  "(\<forall>r \<in> recognized_ranks.
      \<exists>name. levelToName (JNumber r) = Inr name \<and> nameToLevel name = JNumber r)
   \<and> (\<forall>r. r \<notin> recognized_ranks \<longrightarrow> levelToName (JNumber r) = Inl (UnknownLevel (JNumber r)))
   \<and> nameToLevel ''WARN'' = JNumber 30
   \<and> nameToLevel ''WARNING'' = JNumber 30
   \<and> levelToName (JNumber 30) = Inr ''WARN''"
proof -
  have roundtrip: "\<forall>r \<in> recognized_ranks.
      \<exists>name. levelToName (JNumber r) = Inr name \<and> nameToLevel name = JNumber r"
    by (simp add: recognized_ranks_def levelToName_recognized nameToLevel_recognized)
  have fails: "\<forall>r. r \<notin> recognized_ranks \<longrightarrow>
      levelToName (JNumber r) = Inl (UnknownLevel (JNumber r))"
    by (auto intro: levelToName_unknown)
  show ?thesis
    using roundtrip fails by (simp add: levelToName_recognized nameToLevel_recognized)
qed

theorem C4_name_rank_bijection_witness:
  "(20::int) \<in> recognized_ranks
   \<and> (\<exists>name. levelToName (JNumber 20) = Inr name \<and> nameToLevel name = JNumber 20)
   \<and> (15::int) \<notin> recognized_ranks
   \<and> levelToName (JNumber 15) = Inl (UnknownLevel (JNumber 15))"
proof -
  have a: "(20::int) \<in> recognized_ranks" by (simp add: recognized_ranks_def)
  have b: "(15::int) \<notin> recognized_ranks" by (simp add: recognized_ranks_def)
  from C4_name_rank_bijection a b show ?thesis by blast
qed

lemma checkLevel_number: "checkLevel (JNumber n) = Inr (JNumber n)"
  by (simp add: checkLevel_def)

lemma checkLevel_string: "checkLevel (JString s) = Inr (nameToLevel s)"
  by (simp add: checkLevel_def)

text \<open>
  C7. The specification has \<open>nameToLevel\<close> fail for a string that is not one of the
  six names. The function is a property read and throws nothing: for the names
  \<open>VERBOSE\<close> and \<open>info\<close> (the match is case-sensitive) it returns \<^verbatim>\<open>undefined\<close>, where
  its sibling \<open>levelToName\<close> throws on an unknown rank.
\<close>

theorem C7_nameToLevel_unknown_name:
  "''VERBOSE'' \<notin> recognized_names \<and> nameToLevel ''VERBOSE'' = JUndefined
   \<and> ''info'' \<notin> recognized_names \<and> nameToLevel ''info'' = JUndefined
   \<and> levelToName (JNumber 99) = Inl (UnknownLevel (JNumber 99))"
  by (simp add: recognized_names_def nameToLevel_def level_map_def Object_prototype_def
      Object_prototype_names_def levelToName_def LogLevel_defs)

text \<open>
  C8. \<open>checkLevel\<close> returns a number unchanged, returns what \<open>nameToLevel\<close> returns for
  a string, and throws for a value that is neither; \<open>Logger_setLevel\<close> stores its
  result, or passes its error on.
\<close>

theorem C8_checkLevel:
  "(typeof v = ''number'' \<longrightarrow> checkLevel v = Inr v)
   \<and> (\<forall>s. v = JString s \<longrightarrow> checkLevel v = Inr (nameToLevel s))
   \<and> (typeof v \<noteq> ''number'' \<and> typeof v \<noteq> ''string'' \<longrightarrow>
        checkLevel v = Inl (LevelUnrecognized v))
   \<and> Logger_setLevel lg v
       = (case checkLevel v of Inl e \<Rightarrow> Inl e | Inr r \<Rightarrow> Inr (lg\<lparr>level := r\<rparr>))"
  by (auto simp: checkLevel_def Logger_setLevel_def)

theorem C8_checkLevel_witness:
  "checkLevel (JNumber 30) = Inr (JNumber 30)
   \<and> checkLevel (JString ''WARNING'') = Inr (JNumber 30)
   \<and> checkLevel JNull = Inl (LevelUnrecognized JNull)
   \<and> checkLevel (JBool True) = Inl (LevelUnrecognized (JBool True))"
  using C8_checkLevel [of "JNumber 30"] C8_checkLevel [of "JString ''WARNING''"]
    C8_checkLevel [of JNull] C8_checkLevel [of "JBool True"]
  by (simp add: nameToLevel_recognized)

section \<open>Logger.log\<close>

lemma util_format_log:
  "util_format Logging_Format [a, b, c] = a @ '' ['' @ b @ ''] - '' @ c"
  by (simp add: Logging_Format_def logging_log_format_def)

lemma le_number_JNumber [simp]: "le_number (JNumber t) l \<longleftrightarrow> t \<le> l"
  by (simp add: le_number_def)

text \<open>
  C1. A log call with a numeric level strictly below a numeric threshold does nothing:
  it returns normally and leaves the world as it was, so nothing is formatted and no
  handler's \<^verbatim>\<open>write\<close> is called.
\<close>

theorem C1_below_threshold_noop:
  "level lg = JNumber t \<Longrightarrow> l < t \<Longrightarrow> Logger_log lg l message now w = Inr w"
  by (simp add: Logger_log_def)

theorem C1_below_threshold_noop_witness:
  "level (spy_logger 20) = JNumber 20 \<and> (10::int) < 20
   \<and> Logger_log (spy_logger 20) 10 ''x'' ''2015-11-03T10:00:00.000Z'' world0 = Inr world0"
proof -
  have a: "level (spy_logger 20) = JNumber 20" by (simp add: spy_logger_def)
  have b: "(10::int) < 20" by simp
  from C1_below_threshold_noop [OF a b] a show ?thesis by simp
qed

lemma write_calls_handler_write:
  "write_calls (handler_write h s v w) = write_calls w @ [(h, s, v)]"
  by (cases h)
     (simp_all add: handler_write_def LogHandler_write_def ConsoleHandler_write_def
        FileStreamHandler_write_def console_call_def Let_def)

lemma format_calls_handler_write:
  "format_calls (handler_write h s v w) = format_calls w"
  by (cases h)
     (simp_all add: handler_write_def LogHandler_write_def ConsoleHandler_write_def
        FileStreamHandler_write_def console_call_def Let_def)

lemma write_calls_dispatch:
  "write_calls (foldl (\<lambda>w' h. handler_write h s v w') w hs)
     = write_calls w @ map (\<lambda>h. (h, s, v)) hs"
  by (induction hs arbitrary: w) (simp_all add: write_calls_handler_write)

lemma format_calls_dispatch:
  "format_calls (foldl (\<lambda>w' h. handler_write h s v w') w hs) = format_calls w"
  by (induction hs arbitrary: w) (simp_all add: format_calls_handler_write)

lemma handlers_addHandler:
  "handlers (foldl Logger_addHandler lg hs) = handlers lg @ hs"
  by (induction hs arbitrary: lg) (simp_all add: Logger_addHandler_def)

text \<open>
  C2, as amended. A log call whose level passes the threshold and is one of the ranks
  0, 10, 20, 30, 40 formats the message once, into the string
  \<open>now [NAME] - message\<close>, and calls the \<^verbatim>\<open>write\<close> of each handler once with that string
  (and no level), in the order in which \<open>Logger_addHandler\<close> added the handlers.
\<close>

theorem C2_dispatch_recognized:
  assumes "le_number (level lg) l" and "l \<in> recognized_ranks"
  shows "\<exists>name s w'. levelToName (JNumber l) = Inr name
           \<and> s = util_format Logging_Format [now, name, message]
           \<and> s = now @ '' ['' @ name @ ''] - '' @ message
           \<and> Logger_log lg l message now w = Inr w'
           \<and> format_calls w' = format_calls w @ [s]
           \<and> write_calls w' = write_calls w @ map (\<lambda>h. (h, s, JUndefined)) (handlers lg)
           \<and> handlers (foldl Logger_addHandler lg hs) = handlers lg @ hs"
proof -
  from assms(2) obtain name where n: "levelToName (JNumber l) = Inr name"
    by (auto simp: recognized_ranks_def levelToName_recognized)
  let ?s = "util_format Logging_Format [now, name, message]"
  let ?w1 = "w\<lparr>format_calls := format_calls w @ [?s]\<rparr>"
  let ?w' = "foldl (\<lambda>w' h. handler_write h ?s JUndefined w') ?w1 (handlers lg)"
  have shape: "?s = now @ '' ['' @ name @ ''] - '' @ message"
    by (rule util_format_log)
  have run: "Logger_log lg l message now w = Inr ?w'"
    using assms(1) n by (simp add: Logger_log_def Let_def)
  have f: "format_calls ?w' = format_calls w @ [?s]"
    by (simp add: format_calls_dispatch)
  have c: "write_calls ?w' = write_calls w @ map (\<lambda>h. (h, ?s, JUndefined)) (handlers lg)"
    by (simp add: write_calls_dispatch)
  from n shape run f c handlers_addHandler [of lg hs] show ?thesis by blast
qed

theorem C2_dispatch_recognized_witness:
  "le_number (level (spy_logger 20)) 20 \<and> (20::int) \<in> recognized_ranks
   \<and> (\<exists>w'. Logger_log (spy_logger 20) 20 ''y'' ''2015-11-03T10:00:00.000Z'' world0 = Inr w'
         \<and> format_calls w' = [''2015-11-03T10:00:00.000Z [INFO] - y'']
         \<and> write_calls w' =
             [(ConsoleHandler True, ''2015-11-03T10:00:00.000Z [INFO] - y'', JUndefined),
              (FileStreamHandler True ''/game/logs/game.log'',
               ''2015-11-03T10:00:00.000Z [INFO] - y'', JUndefined)])"
proof -
  have a: "le_number (level (spy_logger 20)) 20" by (simp add: spy_logger_def)
  have b: "(20::int) \<in> recognized_ranks" by (simp add: recognized_ranks_def)
  from C2_dispatch_recognized [OF a b, of "''2015-11-03T10:00:00.000Z''" "''y''" world0 "[]"]
  show ?thesis using a b
    by (auto simp: levelToName_recognized world0_def spy_logger_def)
qed

text \<open>
  C2 without the restriction to the five ranks fails: with threshold 10 the level 15 passes the threshold, and the
  call throws from \<open>levelToName\<close> before anything is formatted or written.
\<close>

theorem C2_counterexample:
  "le_number (level (spy_logger 10)) 15
   \<and> Logger_log (spy_logger 10) 15 ''x'' ''2015-11-03T10:00:00.000Z'' world0
       = Inl (UnknownLevel (JNumber 15))"
  by (simp add: spy_logger_def Logger_log_def levelToName_def LogLevel_defs)

text \<open>
  The convenience methods at threshold INFO: \<open>Logger_debug\<close> reaches no handler,
  \<open>Logger_info\<close> reaches both, once each.
\<close>

lemma threshold_INFO_scenario:
  "Logger_debug (spy_logger LogLevel_INFO) ''x'' now world0 = Inr world0"
  "\<exists>w'. Logger_info (spy_logger LogLevel_INFO) ''y'' now world0 = Inr w'
      \<and> write_calls w' =
            [(ConsoleHandler True, now @ '' [INFO] - y'', JUndefined),
             (FileStreamHandler True ''/game/logs/game.log'', now @ '' [INFO] - y'', JUndefined)]"
  by (simp_all add: Logger_debug_def Logger_info_def Logger_log_def spy_logger_def
      LogLevel_defs levelToName_def util_format_log write_calls_handler_write world0_def
      Let_def)

text \<open>
  C3. The specification has a console handler reached through the Logger write to the
  stream of the level and to the generic stream. \<open>Logger_log\<close> calls \<^verbatim>\<open>write\<close> with the
  formatted string alone, so the handler's level is \<^verbatim>\<open>undefined\<close>: an ERROR message
  reaches \<open>console_log\<close> only, although \<open>ConsoleHandler_write\<close>, given the level, would
  call \<open>console_error\<close> as well.
\<close>

theorem C3_console_level_not_passed:
  "Logger_log console_logger LogLevel_ERROR ''boom'' ''2015-11-03T10:00:00.000Z'' world0
     = Inr \<lparr>console_calls = [(console_log, ''2015-11-03T10:00:00.000Z [ERROR] - boom'')],
            fs_opens = [], fs_appends = [],
            format_calls = [''2015-11-03T10:00:00.000Z [ERROR] - boom''],
            write_calls =
              [(ConsoleHandler True, ''2015-11-03T10:00:00.000Z [ERROR] - boom'', JUndefined)]\<rparr>
   \<and> ConsoleHandler_write True ''m'' (JNumber LogLevel_ERROR) world0
       = world0\<lparr>console_calls := [(console_error, ''m''), (console_log, ''m'')]\<rparr>"
  by (simp add: console_logger_def Logger_log_def levelToName_def LogLevel_defs
      util_format_log world0_def handler_write_def ConsoleHandler_write_def
      console_call_def Let_def)

section \<open>The file handler\<close>

lemma fs_appends_writes:
  "fs_appends (foldl (\<lambda>w' m. FileStreamHandler_write True f m lv w') w ms)
     = fs_appends w @ map (\<lambda>m. (f, m @ [CHR 0x0A])) ms"
  by (induction ms arbitrary: w) (simp_all add: FileStreamHandler_write_def)

lemma file_contents_append_completes:
  "file_contents (snd (append_completes oe we req fs)) f
     = file_contents fs f @ (if oe = None \<and> we = None \<and> fst req = f then snd req else [])"
  by (cases oe; cases we) (simp_all add: append_completes_def file_contents_def Let_def)

lemma thrown_append_completes:
  "fst (append_completes oe we req fs) = None \<longleftrightarrow> oe = None \<and> we = None"
  by (cases oe; cases we) (simp_all add: append_completes_def Let_def)

lemma file_contents_completions:
  "file_contents (completions evs fs) f = file_contents fs f @ concat (appended f evs)"
proof (induction evs arbitrary: fs)
  case Nil
  show ?case by (simp add: completions_def appended_def)
next
  case (Cons e evs)
  have step: "completions (e # evs) fs
      = completions evs (snd (append_completes (open_error e) (write_error e) (request e) fs))"
    by (simp add: completions_def)
  show ?case
    unfolding step Cons.IH
    by (simp add: file_contents_append_completes appended_def succeeded_def)
qed

lemma appended_all:
  assumes reqs: "mset (map request evs) = mset (map (\<lambda>m. (f, m @ [CHR 0x0A])) ms)"
    and ok: "\<forall>e \<in> set evs. succeeded e"
  shows "mset (appended f evs) = mset (map (\<lambda>m. m @ [CHR 0x0A]) ms)"
proof -
  have "set (map request evs) = set (map (\<lambda>m. (f, m @ [CHR 0x0A])) ms)"
    using reqs by (rule mset_eq_setD)
  then have incl: "request ` set evs \<subseteq> (\<lambda>m. (f, m @ [CHR 0x0A])) ` set ms"
    by simp
  have path: "\<forall>e \<in> set evs. fst (request e) = f"
  proof
    fix e assume "e \<in> set evs"
    then have "request e \<in> (\<lambda>m. (f, m @ [CHR 0x0A])) ` set ms"
      using incl by blast
    then show "fst (request e) = f" by auto
  qed
  have "filter (\<lambda>e. succeeded e \<and> fst (request e) = f) evs = evs"
    using ok path by (simp add: filter_id_conv)
  then have "appended f evs = map snd (map request evs)"
    by (simp add: appended_def)
  then have "mset (appended f evs) = image_mset snd (mset (map request evs))"
    by (simp add: image_mset.compositionality comp_def)
  also have "\<dots> = image_mset snd (mset (map (\<lambda>m. (f, m @ [CHR 0x0A])) ms))"
    by (simp only: reqs)
  also have "\<dots> = mset (map (\<lambda>m. m @ [CHR 0x0A]) ms)"
    by (simp add: image_mset.compositionality comp_def)
  finally show ?thesis .
qed

lemma line_count_record:
  "CHR 0x0A \<notin> set m \<Longrightarrow> line_count (m @ [CHR 0x0A]) = 1"
  by (auto simp: line_count_def filter_empty_conv)

text \<open>
  C5, amended. A file handler starts not ready and becomes ready when its
  open-for-append check completes without error. While it is not ready, \<^verbatim>\<open>write\<close>
  changes nothing (and, as always, throws nothing). Once ready, each \<^verbatim>\<open>write\<close> requests
  exactly one append to the log file, of the message followed by a newline: one line
  when the message has no line feed. A request whose open and write succeed puts its
  buffer at the end of the file and throws nothing; one that fails throws from its
  callback and leaves the contents as they were. So after any callbacks, in any order,
  the file has grown by the buffers of the successful ones in the order of completion;
  and when the requests of a run of writes all complete without error, in whatever
  order, these are exactly one record per call.
\<close>

theorem C5_file_sink_requests:
  "fst (FileStreamHandler_initialize resolve dir fileName w)
       = FileStreamHandler False (resolve [dir, ''./'', fileName])
   \<and> FileStreamHandler_opened None (FileStreamHandler False f) = Inr (FileStreamHandler True f)
   \<and> FileStreamHandler_write False f m lv w = w
   \<and> FileStreamHandler_write True f m lv w
       = w\<lparr>fs_appends := fs_appends w @ [(f, m @ [CHR 0x0A])]\<rparr>
   \<and> (CHR 0x0A \<notin> set m \<longrightarrow> line_count (m @ [CHR 0x0A]) = 1)
   \<and> fs_appends (foldl (\<lambda>w' m'. FileStreamHandler_write True f m' lv w') w ms)
       = fs_appends w @ map (\<lambda>m'. (f, m' @ [CHR 0x0A])) ms
   \<and> (fst (append_completes (open_error e) (write_error e) (request e) fs) = None
        \<longleftrightarrow> succeeded e)
   \<and> (\<not> succeeded e \<longrightarrow>
        file_contents (snd (append_completes (open_error e) (write_error e) (request e) fs)) f
          = file_contents fs f)
   \<and> file_contents (completions evs fs) f = file_contents fs f @ concat (appended f evs)
   \<and> (mset (map request evs) = mset (map (\<lambda>m'. (f, m' @ [CHR 0x0A])) ms)
        \<and> (\<forall>e' \<in> set evs. succeeded e')
      \<longrightarrow> mset (appended f evs) = mset (map (\<lambda>m'. m' @ [CHR 0x0A]) ms))"
proof -
  have i: "fst (FileStreamHandler_initialize resolve dir fileName w)
       = FileStreamHandler False (resolve [dir, ''./'', fileName])"
    by (simp add: FileStreamHandler_initialize_def Let_def)
  have a: "FileStreamHandler_write False f m lv w = w"
    by (simp add: FileStreamHandler_write_def)
  have b: "FileStreamHandler_write True f m lv w
      = w\<lparr>fs_appends := fs_appends w @ [(f, m @ [CHR 0x0A])]\<rparr>"
    by (simp add: FileStreamHandler_write_def)
  have t: "fst (append_completes (open_error e) (write_error e) (request e) fs) = None
        \<longleftrightarrow> succeeded e"
    by (simp add: thrown_append_completes succeeded_def)
  have u: "\<not> succeeded e \<longrightarrow>
        file_contents (snd (append_completes (open_error e) (write_error e) (request e) fs)) f
          = file_contents fs f"
    by (simp add: file_contents_append_completes succeeded_def)
  from i a b t u show ?thesis
    by (simp add: line_count_record fs_appends_writes file_contents_completions appended_all)
qed

theorem C5_file_sink_requests_witness:
  "CHR 0x0A \<notin> set ''a'' \<and> line_count (''a'' @ [CHR 0x0A]) = 1
   \<and> \<not> succeeded (open_failed ''a'')
   \<and> mset (map request [completed ''b'', completed ''a''])
       = mset (map (\<lambda>m'. (log_path, m' @ [CHR 0x0A])) [''a'', ''b''])
   \<and> succeeded (completed ''b'') \<and> succeeded (completed ''a'')
   \<and> mset (appended log_path [completed ''b'', completed ''a''])
       = mset (map (\<lambda>m'. m' @ [CHR 0x0A]) [''a'', ''b''])
   \<and> file_contents (completions [completed ''b'', completed ''a''] (map_of [])) log_path
       = [CHR ''b'', CHR 0x0A, CHR ''a'', CHR 0x0A]"
proof -
  have n: "CHR 0x0A \<notin> set ''a''" by simp
  have q: "mset (map request [completed ''b'', completed ''a''])
       = mset (map (\<lambda>m'. (log_path, m' @ [CHR 0x0A])) [''a'', ''b''])"
    by (simp add: completed_def)
  have ok: "\<forall>e' \<in> set [completed ''b'', completed ''a'']. succeeded e'"
    by (simp add: completed_def succeeded_def)
  have nf: "\<not> succeeded (open_failed ''a'')"
    by (simp add: open_failed_def succeeded_def)
  have ap: "appended log_path [completed ''b'', completed ''a'']
      = [[CHR ''b'', CHR 0x0A], [CHR ''a'', CHR 0x0A]]"
    by (simp add: appended_def completed_def succeeded_def)
  have em: "file_contents (map_of []) log_path = []"
    by (simp add: file_contents_def)
  note t = C5_file_sink_requests
    [of concat "[]" "[]" world0 log_path "''a''" JUndefined "[''a'', ''b'']" "open_failed ''a''"
        "map_of []" "[completed ''b'', completed ''a'']"]
  have l: "line_count (''a'' @ [CHR 0x0A]) = 1"
    using t n by blast
  have c: "file_contents (completions [completed ''b'', completed ''a''] (map_of [])) log_path
       = file_contents (map_of []) log_path
           @ concat (appended log_path [completed ''b'', completed ''a''])"
    using t by blast
  have ms: "mset (appended log_path [completed ''b'', completed ''a''])
       = mset (map (\<lambda>m'. m' @ [CHR 0x0A]) [''a'', ''b''])"
    using t q ok by blast
  have ok2: "succeeded (completed ''b'') \<and> succeeded (completed ''a'')"
    using ok by simp
  from n l nf q ok2 ms c show ?thesis by (simp only: ap em) simp
qed

text \<open>
  C5 without the conditions fails. A ready handler accepts \<open>a\<close> and requests the append;
  the open fails, the callback throws, and the file keeps its old contents. And the one
  record written for a message with a line feed in it has two lines.
\<close>

theorem C5_counterexample:
  "fs_appends (FileStreamHandler_write True log_path ''a'' JUndefined world0)
       = [request (open_failed ''a'')]
   \<and> fst (append_completes (open_error (open_failed ''a'')) (write_error (open_failed ''a''))
            (request (open_failed ''a'')) (map_of [(log_path, ''old'')]))
       = Some (Thrown ''An error was encountered when attemping to open the log file: EACCES'')
   \<and> file_contents
        (snd (append_completes (open_error (open_failed ''a'')) (write_error (open_failed ''a''))
                (request (open_failed ''a'')) (map_of [(log_path, ''old'')]))) log_path
       = ''old''
   \<and> fs_appends (FileStreamHandler_write True log_path [CHR ''a'', CHR 0x0A, CHR ''b''] JUndefined world0)
       = [(log_path, [CHR ''a'', CHR 0x0A, CHR ''b'', CHR 0x0A])]
   \<and> line_count [CHR ''a'', CHR 0x0A, CHR ''b'', CHR 0x0A] = 2"
  by (simp add: FileStreamHandler_write_def world0_def open_failed_def append_completes_def
      file_contents_def line_count_def log_path_def)

section \<open>An unknown level name\<close>

lemma le_number_unrecognized:
  "s \<notin> recognized_names \<Longrightarrow> \<not> le_number (nameToLevel s) l"
  by (simp add: nameToLevel_unrecognized le_number_def)

text \<open>
  C9, as amended. For a string \<open>s\<close> that is not a level name, \<open>Logger_setLevel\<close>
  returns normally and sets the threshold to a value that is not a number:
  \<^verbatim>\<open>undefined\<close>, or, when \<open>s\<close> names a property inherited from \<^verbatim>\<open>Object.prototype\<close>, that
  built-in. The handlers stay, and from then on every log call at a numeric level returns
  with the world unchanged: no handler is called.
\<close>

theorem C9_unknown_name_mutes:
  assumes "s \<notin> recognized_names"
  shows "\<exists>lg'. Logger_setLevel lg (JString s) = Inr lg'
           \<and> level lg' = (if s \<in> set Object_prototype_names then JBuiltin s else JUndefined)
           \<and> handlers lg' = handlers lg
           \<and> (\<forall>l message now w. Logger_log lg' l message now w = Inr w)"
proof -
  let ?lg' = "lg\<lparr>level := nameToLevel s\<rparr>"
  have stored: "Logger_setLevel lg (JString s) = Inr ?lg'"
    by (simp add: Logger_setLevel_def checkLevel_string)
  have lv: "level ?lg' = (if s \<in> set Object_prototype_names then JBuiltin s else JUndefined)"
    using assms by (simp add: nameToLevel_unrecognized)
  have muted: "\<forall>l message now w. Logger_log ?lg' l message now w = Inr w"
    using assms by (simp add: Logger_log_def le_number_unrecognized)
  from stored lv muted show ?thesis by simp
qed

theorem C9_unknown_name_mutes_witness:
  "''verbose'' \<notin> recognized_names
   \<and> (\<exists>lg'. Logger_setLevel (spy_logger 10) (JString ''verbose'') = Inr lg'
         \<and> level lg' = JUndefined
         \<and> Logger_log lg' 40 ''x'' ''2015-11-03T10:00:00.000Z'' world0 = Inr world0)"
proof -
  have a: "''verbose'' \<notin> recognized_names" by (simp add: recognized_names_def)
  have b: "''verbose'' \<notin> set Object_prototype_names" by (simp add: Object_prototype_names_def)
  from C9_unknown_name_mutes [OF a, of "spy_logger 10"] a b show ?thesis by auto
qed

text \<open>
  C9 with \<^verbatim>\<open>undefined\<close> as the only outcome fails: \<open>constructor\<close> is not a level name,
  and setting it as the level stores the inherited built-in.
\<close>

theorem C9_counterexample:
  "''constructor'' \<notin> recognized_names
   \<and> Logger_setLevel Logger_initialize (JString ''constructor'')
       = Inr (Logger_initialize\<lparr>level := JBuiltin ''constructor''\<rparr>)
   \<and> JBuiltin ''constructor'' \<noteq> JUndefined"
  by (simp add: recognized_names_def Logger_setLevel_def checkLevel_def nameToLevel_def
      level_map_def Object_prototype_def Object_prototype_names_def)

section \<open>The enable flags\<close>

lemma Boolean_or_true: "Boolean (js_or (JString v) (JString ''true''))"
  by (cases v) (simp_all add: Boolean_def js_or_def)

lemma enable_flags:
  "logging_enable_console_logger p" "logging_enable_file_logger p"
  by (simp_all add: logging_enable_console_logger_def logging_enable_file_logger_def
      Boolean_def js_or_def parameter_def split: option.split)

text \<open>
  C10. \<open>Boolean (v || "true")\<close> is true for every string \<open>v\<close>, so both enable flags are
  true whatever the parameters are, and \<open>createLogger\<close>, unless \<open>checkLevel\<close> throws on
  its level, returns a Logger with a console handler and a file handler, in this order.
\<close>

theorem C10_flags_always_enabled:
  "Boolean (js_or (JString v) (JString ''true''))
   \<and> logging_enable_console_logger p \<and> logging_enable_file_logger p
   \<and> createLogger p env name lvl w =
       (case checkLevel lvl of
          Inl e \<Rightarrow> Inl e
        | Inr r \<Rightarrow>
            Inr (\<lparr>handlers =
                     [ConsoleHandler (console_present env),
                      FileStreamHandler False
                        (path_resolve env
                           [logs_path env, ''./'', path_basename env (logging_filename p)])],
                   format = [], level = r\<rparr>,
                 w\<lparr>fs_opens := fs_opens w @
                     [path_resolve env
                        [logs_path env, ''./'', path_basename env (logging_filename p)]]\<rparr>))"
  by (simp add: Boolean_or_true enable_flags createLogger_def Logger_setLevel_def
      Logger_initialize_def Logger_addHandler_def ConsoleHandler_initialize_def
      FileStreamHandler_initialize_def Let_def split: sum.split)

theorem C10_flags_always_enabled_witness:
  "Boolean (js_or (JString ''false'') (JString ''true''))
   \<and> Boolean (js_or (JString []) (JString ''true''))
   \<and> logging_enable_console_logger [''Enable Console Logger'' \<mapsto> ''false'']
   \<and> logging_enable_file_logger [''Enable File Logger'' \<mapsto> ''0'']"
  using C10_flags_always_enabled [of "''false''" "[''Enable Console Logger'' \<mapsto> ''false'']"]
    C10_flags_always_enabled [of "[]" "[''Enable File Logger'' \<mapsto> ''0'']"]
  by simp

section \<open>resolveToLocalPath\<close>

lemma resolveToLocalPath_examples:
  "resolveToLocalPath ''../../etc'' = ''etc''"
  "resolveToLocalPath ''a/b/../c'' = ''c''"
  "resolveToLocalPath ''../secret/logs'' = ''logs''"
  by code_simp+

text \<open>
  C6. The specification has \<open>resolveToLocalPath\<close> leave the final path segment only,
  so that no traversal or absolute path survives; the three inputs it names do give
  \<open>etc\<close>, \<open>c\<close> and \<open>logs\<close>. But \<open>..\<close> comes back as it is, and \<open>logs//\<close> and \<open>/\<close>
  come back as \<open>/\<close>: a path out of the project directory, which the function's comment
  says it prevents.
\<close>

theorem C6_traversal_survives:
  "resolveToLocalPath ''..'' = ''..''
   \<and> resolveToLocalPath ''logs//'' = ''/''
   \<and> resolveToLocalPath ''/'' = ''/''"
  by code_simp

end
